theory Spec2Isabelle
  imports Main
begin

section \<open>The logging facade of package helpers (logger.go)\<close>

text \<open>
  The package keeps one process-wide pointer \<open>zapLogger\<close> to a logger of the zap
  backend and offers level-specific log calls on it, an initialisation function and the
  error type \<open>Error\<close> that marks an error as already logged.

  The embedding passes the process state explicitly. A call that panics or ends the
  process returns \<open>Inl\<close>; a call that returns normally gives \<open>Inr\<close> of its result and
  the new state.
\<close>

subsection \<open>The backend (go.uber.org/zap), as far as logger.go uses it\<close>

text \<open>
  zapcore.Level is a small signed integer: Debug is -1, Info 0, Warn 1, Error 2,
  DPanic 3, Panic 4 and Fatal 5. A core with threshold \<open>t\<close> enables level \<open>l\<close> when
  \<open>t \<le> l\<close>.
\<close>

type_synonym Level = int

definition DebugLevel :: Level where "DebugLevel = - 1"
definition InfoLevel :: Level where "InfoLevel = 0"
definition WarnLevel :: Level where "WarnLevel = 1"
definition ErrorLevel :: Level where "ErrorLevel = 2"
definition FatalLevel :: Level where "FatalLevel = 5"

datatype LevelEncoder = LowercaseLevelEncoder | CapitalLevelEncoder | CapitalColorLevelEncoder

text \<open>
  zap.Config, with the fields that logger.go reads or writes. \<open>Level\<close> stands for the
  value held by the configuration's own AtomicLevel.
\<close>

record Config =
  Level :: Level
  Development :: bool
  Encoding :: string
  EncodeLevel :: LevelEncoder

definition NewProductionConfig :: Config where
  "NewProductionConfig =
     \<lparr>Level = InfoLevel, Development = False, Encoding = ''json'',
      EncodeLevel = LowercaseLevelEncoder\<rparr>"

definition NewDevelopmentConfig :: Config where
  "NewDevelopmentConfig =
     \<lparr>Level = DebugLevel, Development = True, Encoding = ''console'',
      EncodeLevel = CapitalLevelEncoder\<rparr>"

text \<open>
  A built logger: the configuration it was built from and the caller skip given as a
  build option.
\<close>

record Logger =
  cfg :: Config
  callerSkip :: nat

text \<open>
  Config.Build returns a pair, the logger pointer and the error, as a Go function with two
  results does. The backend knows the encodings \<open>json\<close> and \<open>console\<close>; for any other name
  it returns the nil pointer and an error, whose text is given here without the quotes
  around the name. (The real backend can fail for further reasons, such as a sink it cannot
  open; it returns the nil pointer and an error then as well.)
\<close>

definition Build :: "Config \<Rightarrow> nat \<Rightarrow> Logger option \<times> string option" where
  "Build config skip =
     (if Encoding config = ''json'' \<or> Encoding config = ''console''
      then (Some \<lparr>cfg = config, callerSkip = skip\<rparr>, None)
      else (None, Some (''no encoder registered for name '' @ Encoding config)))"

text \<open>\<open>Core().Enabled(l)\<close> of a logger.\<close>

definition Enabled :: "Logger \<Rightarrow> Level \<Rightarrow> bool" where
  "Enabled lg l = (Level (cfg lg) \<le> l)"

text \<open>
  A structured field is a key with a value. \<open>zap.String\<close> and \<open>zap.Any\<close> on a string give
  a string field, \<open>zap.Any\<close> on a \<open>map[string]interface{}\<close> gives a field holding the map.
  The type \<open>'v\<close> stands for the values of \<open>interface{}\<close>.
\<close>

datatype 'v Value = StringType string | ReflectType "string \<rightharpoonup> 'v"

type_synonym 'v Field = "string \<times> 'v Value"

definition zap_String :: "string \<Rightarrow> string \<Rightarrow> 'v Field" where
  "zap_String key val = (key, StringType val)"

definition zap_Any :: "string \<Rightarrow> 'v Value \<Rightarrow> 'v Field" where
  "zap_Any key val = (key, val)"

text \<open>A record handed to a logger: its severity, its message and its fields in order.\<close>

record 'v Entry =
  severity :: Level
  Message :: string
  Fields :: "'v Field list"

subsection \<open>The process state\<close>

text \<open>
  \<open>zapLogger\<close> is the package variable (\<open>None\<close> is the nil pointer), \<open>stdLog\<close> the logger
  that the standard library's log output was last redirected to, and \<open>emitted\<close> the records
  handed to the backend so far, each with the logger that received it.
\<close>

record 'v State =
  zapLogger :: "Logger option"
  stdLog :: "Logger option"
  emitted :: "(Logger \<times> 'v Entry) list"

datatype 'v abort = NilPointerDereference | OsExit "'v State"

text \<open>
  The methods \<open>Debug\<close>, \<open>Info\<close>, \<open>Warn\<close> and \<open>Error\<close> of a logger pointer. Called on the nil
  pointer they panic. The backend writes a record to its sinks when the logger enables the
  record's severity (\<open>written\<close> below).
\<close>

definition zap_log ::
  "Level \<Rightarrow> Logger option \<Rightarrow> string \<Rightarrow> 'v Field list \<Rightarrow> 'v State \<Rightarrow> 'v abort + 'v State" where
  "zap_log l p m fs s =
     (case p of
        None \<Rightarrow> Inl NilPointerDereference
      | Some lg \<Rightarrow>
          Inr (s\<lparr>emitted := emitted s @ [(lg, \<lparr>severity = l, Message = m, Fields = fs\<rparr>)]\<rparr>))"

text \<open>\<open>Fatal\<close> hands the record over and then ends the process.\<close>

definition zap_Fatal ::
  "Logger option \<Rightarrow> string \<Rightarrow> 'v Field list \<Rightarrow> 'v State \<Rightarrow> 'v abort + 'v State" where
  "zap_Fatal p m fs s =
     (case zap_log FatalLevel p m fs s of
        Inl a \<Rightarrow> Inl a
      | Inr s' \<Rightarrow> Inl (OsExit s'))"

definition written :: "'v State \<Rightarrow> 'v Entry list" where
  "written s = map snd (filter (\<lambda>(lg, e). Enabled lg (severity e)) (emitted s))"

text \<open>The records that a step from \<open>s\<close> to \<open>s'\<close> added.\<close>

definition newRecords :: "'v State \<Rightarrow> 'v State \<Rightarrow> 'v Entry list" where
  "newRecords s s' = map snd (drop (length (emitted s)) (emitted s'))"

subsection \<open>Constants\<close>

definition LogLevelInfo :: string where "LogLevelInfo = ''info''"
definition LogLevelDebug :: string where "LogLevelDebug = ''debug''"
definition LogLevelError :: string where "LogLevelError = ''error''"
definition LogFormatJSON :: string where "LogFormatJSON = ''json''"
definition LogFormatText :: string where "LogFormatText = ''text''"

subsection \<open>The error type\<close>

record Error =
  message :: string
  rawError :: string

definition NewError :: "string \<Rightarrow> string \<Rightarrow> Error" where
  "NewError m r = \<lparr>message = m, rawError = r\<rparr>"

definition RawError :: "Error \<Rightarrow> string" where
  "RawError e = rawError e"

definition Error_Error :: "Error \<Rightarrow> string" where
  "Error_Error e = message e"

text \<open>
  A non-nil value of the interface \<open>error\<close>, by its dynamic type: an \<open>Error\<close> held by
  value, a non-nil pointer \<open>*Error\<close> (which has the methods of \<open>Error\<close>), a wrapper
  type with a text of its own around a cause, and the plain text error of \<open>errors.New\<close>.
  The nil interface is \<open>None\<close> of \<open>error option\<close>.
\<close>

datatype error =
    ErrorValue Error
  | ErrorPointer Error
  | Wrapper string error
  | ErrorString string

fun error_Error :: "error \<Rightarrow> string" where
  "error_Error (ErrorValue e) = Error_Error e"
| "error_Error (ErrorPointer e) = Error_Error e"
| "error_Error (Wrapper text cause) = text"
| "error_Error (ErrorString text) = text"

text \<open>The type assertion \<open>err.(Error)\<close>: the value when the dynamic type is \<open>Error\<close>.\<close>

fun assertError :: "error option \<Rightarrow> Error option" where
  "assertError (Some (ErrorValue v)) = Some v"
| "assertError _ = None"

subsection \<open>The log calls\<close>

definition LogInfo ::
  "string \<Rightarrow> string \<Rightarrow> (string \<rightharpoonup> 'v) option \<Rightarrow> 'v State \<Rightarrow> 'v abort + 'v State" where
  "LogInfo requestID m flds s =
     (case flds of
        Some f \<Rightarrow>
          zap_log InfoLevel (zapLogger s) m
            [zap_String ''requestId'' requestID, zap_Any ''fields'' (ReflectType f)] s
      | None \<Rightarrow>
          zap_log InfoLevel (zapLogger s) m [zap_String ''requestId'' requestID] s)"

definition LogWarn ::
  "string \<Rightarrow> string \<Rightarrow> (string \<rightharpoonup> 'v) option \<Rightarrow> 'v State \<Rightarrow> 'v abort + 'v State" where
  "LogWarn requestID m flds s =
     (case flds of
        Some f \<Rightarrow>
          zap_log WarnLevel (zapLogger s) m
            [zap_String ''requestId'' requestID, zap_Any ''fields'' (ReflectType f)] s
      | None \<Rightarrow>
          zap_log WarnLevel (zapLogger s) m [zap_String ''requestId'' requestID] s)"

definition LogDebug ::
  "string \<Rightarrow> string \<Rightarrow> (string \<rightharpoonup> 'v) option \<Rightarrow> 'v State \<Rightarrow> 'v abort + 'v State" where
  "LogDebug requestID m flds s =
     (case flds of
        Some f \<Rightarrow>
          zap_log DebugLevel (zapLogger s) m
            [zap_String ''requestId'' requestID, zap_Any ''fields'' (ReflectType f)] s
      | None \<Rightarrow>
          zap_log DebugLevel (zapLogger s) m [zap_String ''requestId'' requestID] s)"

definition LogFatal ::
  "string \<Rightarrow> string \<Rightarrow> (string \<rightharpoonup> 'v) option \<Rightarrow> 'v State \<Rightarrow> 'v abort + 'v State" where
  "LogFatal requestID m flds s =
     (case flds of
        Some f \<Rightarrow>
          zap_Fatal (zapLogger s) m
            [zap_String ''requestId'' requestID, zap_Any ''fields'' (ReflectType f)] s
      | None \<Rightarrow>
          zap_Fatal (zapLogger s) m [zap_String ''requestId'' requestID] s)"

definition LogError ::
  "string \<Rightarrow> string \<Rightarrow> error option \<Rightarrow> (string \<rightharpoonup> 'v) option \<Rightarrow> 'v State
     \<Rightarrow> 'v abort + (error \<times> 'v State)" where
  "LogError requestID m err flds s =
     (case assertError err of
        Some v \<Rightarrow> Inr (ErrorValue v, s)
      | None \<Rightarrow>
          (let err' = (case err of None \<Rightarrow> ErrorString [] | Some e \<Rightarrow> e) in
           case (case flds of
                   Some f \<Rightarrow>
                     zap_log ErrorLevel (zapLogger s) m
                       [zap_Any ''error'' (StringType (error_Error err')),
                        zap_String ''requestId'' requestID,
                        zap_Any ''fields'' (ReflectType f)] s
                 | None \<Rightarrow>
                     zap_log ErrorLevel (zapLogger s) m
                       [zap_Any ''error'' (StringType (error_Error err')),
                        zap_String ''requestId'' requestID] s) of
             Inl a \<Rightarrow> Inl a
           | Inr s' \<Rightarrow>
               Inr (ErrorValue \<lparr>message = m, rawError = error_Error err'\<rparr>, s')))"

subsection \<open>The enabled checks\<close>

definition coreEnabled :: "Level \<Rightarrow> 'v State \<Rightarrow> 'v abort + bool" where
  "coreEnabled l s =
     (case zapLogger s of
        None \<Rightarrow> Inl NilPointerDereference
      | Some lg \<Rightarrow> Inr (Enabled lg l))"

definition LogErrorEnabled :: "'v State \<Rightarrow> 'v abort + bool" where
  "LogErrorEnabled s = coreEnabled ErrorLevel s"

definition LogWarnEnabled :: "'v State \<Rightarrow> 'v abort + bool" where
  "LogWarnEnabled s = coreEnabled WarnLevel s"

definition LogInfoEnabled :: "'v State \<Rightarrow> 'v abort + bool" where
  "LogInfoEnabled s = coreEnabled InfoLevel s"

definition LogDebugEnabled :: "'v State \<Rightarrow> 'v abort + bool" where
  "LogDebugEnabled s = coreEnabled DebugLevel s"

definition LogFatalEnabled :: "'v State \<Rightarrow> 'v abort + bool" where
  "LogFatalEnabled s = coreEnabled FatalLevel s"

subsection \<open>Initialisation\<close>

text \<open>
  The constant \<open>internalRequestID\<close> is declared in another file of the package; its
  value is a parameter \<open>rid\<close> of the functions that use it.
\<close>

definition getLogFormat :: "string \<Rightarrow> string \<Rightarrow> 'v State \<Rightarrow> 'v abort + (string \<times> 'v State)" where
  "getLogFormat rid logFormat s =
     (if logFormat = LogFormatJSON then Inr (LogFormatJSON, s)
      else if logFormat = LogFormatText then Inr (''console'', s)
      else
        (case LogInfo rid ''Invalid log format provided switching to log format json'' None s of
           Inl a \<Rightarrow> Inl a
         | Inr s' \<Rightarrow> Inr (LogFormatJSON, s')))"

definition getLogLevel :: "string \<Rightarrow> string \<Rightarrow> 'v State \<Rightarrow> 'v abort + (Level \<times> 'v State)" where
  "getLogLevel rid logLevel s =
     (if logLevel = LogLevelDebug then Inr (DebugLevel, s)
      else if logLevel = LogLevelInfo then Inr (InfoLevel, s)
      else if logLevel = LogLevelError then Inr (ErrorLevel, s)
      else
        (case LogInfo rid ''Invalid log level provided switching to log level info'' None s of
           Inl a \<Rightarrow> Inl a
         | Inr s' \<Rightarrow> Inr (InfoLevel, s')))"

text \<open>
  An override callback receives a pointer to the configuration and may change it; it is a
  function from the configuration to the changed one. The result of \<open>InitLogger\<close> is the
  returned error (\<open>None\<close> is nil) and the new state.
\<close>

definition InitLogger ::
  "string \<Rightarrow> string \<Rightarrow> string \<Rightarrow> bool \<Rightarrow> (Config \<Rightarrow> Config) list \<Rightarrow> 'v State
     \<Rightarrow> 'v abort + (string option \<times> 'v State)" where
  "InitLogger rid loglevel logFormat isDev configCb s =
     (let config0 =
            (if isDev
             then (if logFormat = LogFormatText
                   then NewDevelopmentConfig\<lparr>EncodeLevel := CapitalColorLevelEncoder\<rparr>
                   else NewDevelopmentConfig)
             else NewProductionConfig)
      in case getLogFormat rid logFormat s of
           Inl a \<Rightarrow> Inl a
         | Inr (enc, s1) \<Rightarrow>
             (let config1 = config0\<lparr>Encoding := enc\<rparr>
              in case getLogLevel rid loglevel s1 of
                   Inl a \<Rightarrow> Inl a
                 | Inr (lvl, s2) \<Rightarrow>
                     (let config2 = config1\<lparr>Level := lvl\<rparr>;
                          config3 = (if length configCb > 0 then (configCb ! 0) config2
                                     else config2);
                          built = Build config3 1;
                          s3 = s2\<lparr>zapLogger := fst built\<rparr>
                      in if snd built \<noteq> None then Inr (snd built, s3)
                         else Inr (None, s3\<lparr>stdLog := fst built\<rparr>))))"

text \<open>The package's \<open>init\<close>, which drops the error.\<close>

definition init :: "string \<Rightarrow> 'v State \<Rightarrow> 'v abort + 'v State" where
  "init rid s =
     (case InitLogger rid LogLevelInfo LogFormatJSON False [] s of
        Inl a \<Rightarrow> Inl a
      | Inr (_, s') \<Rightarrow> Inr s')"

text \<open>The state when the package is loaded, before \<open>init\<close> has run.\<close>

definition loaded :: "'v State" where
  "loaded = \<lparr>zapLogger = None, stdLog = None, emitted = []\<rparr>"

subsection \<open>Notions used to state the properties\<close>

text \<open>
  The nested call \<open>LogError(rid, m, LogError(rid, m, e, nil), nil)\<close>: the inner call runs
  first, the outer call receives the value it returned.
\<close>

definition LogError_nested ::
  "string \<Rightarrow> string \<Rightarrow> error option \<Rightarrow> 'v State \<Rightarrow> 'v abort + (error \<times> 'v State)" where
  "LogError_nested rid m e s =
     (case LogError rid m e None s of
        Inl a \<Rightarrow> Inl a
      | Inr (v, s1) \<Rightarrow> LogError rid m (Some v) None s1)"

text \<open>The records that a call started in \<open>s\<close> handed to the backend, read off its outcome.\<close>

definition recordsOf :: "'v State \<Rightarrow> 'v abort + 'v State \<Rightarrow> 'v Entry list" where
  "recordsOf s r =
     (case r of
        Inr s' \<Rightarrow> newRecords s s'
      | Inl (OsExit s') \<Rightarrow> newRecords s s'
      | Inl NilPointerDereference \<Rightarrow> [])"

definition stateOf :: "'v abort + ('a \<times> 'v State) \<Rightarrow> 'v abort + 'v State" where
  "stateOf r = map_sum id snd r"

definition resultOf :: "'v abort + ('a \<times> 'v State) \<Rightarrow> 'a option" where
  "resultOf r = (case r of Inl a \<Rightarrow> None | Inr (x, s') \<Rightarrow> Some x)"

text \<open>A call made in the state that an earlier call has left.\<close>

definition after :: "'v abort + ('a \<times> 'v State) \<Rightarrow> ('v State \<Rightarrow> 'v abort + 'b) \<Rightarrow> 'v abort + 'b" where
  "after r f = (case r of Inl a \<Rightarrow> Inl a | Inr (x, s') \<Rightarrow> f s')"

text \<open>The value under the key \<open>fields\<close> of a record, if the record has that key.\<close>

definition fieldsKey :: "'v Entry \<Rightarrow> 'v Value option" where
  "fieldsKey e = map_of (Fields e) ''fields''"

text \<open>The text of the cause that \<open>LogError\<close> logs: empty for the nil error.\<close>

definition causeText :: "error option \<Rightarrow> string" where
  "causeText err = (case err of None \<Rightarrow> [] | Some e \<Rightarrow> error_Error e)"

text \<open>
  The configuration that \<open>InitLogger\<close> has put together when it reaches the override
  callback: the template for the mode, the encoding for the format and the threshold for
  the level (lemma \<open>InitLogger_builds\<close> relates it to \<open>InitLogger\<close>).
\<close>

definition resolvedConfig :: "string \<Rightarrow> string \<Rightarrow> bool \<Rightarrow> Config" where
  "resolvedConfig loglevel logFormat isDev =
     (if isDev
      then (if logFormat = LogFormatText
            then NewDevelopmentConfig\<lparr>EncodeLevel := CapitalColorLevelEncoder\<rparr>
            else NewDevelopmentConfig)
      else NewProductionConfig)
     \<lparr>Encoding := (if logFormat = LogFormatText then ''console'' else LogFormatJSON),
      Level := (if loglevel = LogLevelDebug then DebugLevel
                else if loglevel = LogLevelError then ErrorLevel
                else InfoLevel)\<rparr>"

text \<open>Override callbacks that set one field of the configuration.\<close>

definition setEncoding :: "string \<Rightarrow> Config \<Rightarrow> Config" where
  "setEncoding e c = c\<lparr>Encoding := e\<rparr>"

definition setLevel :: "Level \<Rightarrow> Config \<Rightarrow> Config" where
  "setLevel l c = c\<lparr>Level := l\<rparr>"

text \<open>
  The state that \<open>init\<close> leaves when the package is loaded: the production logger at
  threshold Info is active and nothing has been logged (lemma \<open>init_loaded\<close>).
\<close>

definition defaultLogger :: Logger where
  "defaultLogger = \<lparr>cfg = NewProductionConfig, callerSkip = 1\<rparr>"

definition started :: "'v State" where
  "started = \<lparr>zapLogger = Some defaultLogger, stdLog = Some defaultLogger, emitted = []\<rparr>"

text \<open>
  The two fallback records, and the records that one call of \<open>InitLogger\<close> hands to the
  logger \<open>lg\<close> that is active when it starts: the one for the format first.
\<close>

definition formatFallback :: "string \<Rightarrow> 'v Entry" where
  "formatFallback rid =
     \<lparr>severity = InfoLevel,
      Message = ''Invalid log format provided switching to log format json'',
      Fields = [(''requestId'', StringType rid)]\<rparr>"

definition levelFallback :: "string \<Rightarrow> 'v Entry" where
  "levelFallback rid =
     \<lparr>severity = InfoLevel,
      Message = ''Invalid log level provided switching to log level info'',
      Fields = [(''requestId'', StringType rid)]\<rparr>"

definition fallbackRecords :: "string \<Rightarrow> string \<Rightarrow> string \<Rightarrow> Logger \<Rightarrow> (Logger \<times> 'v Entry) list" where
  "fallbackRecords rid loglevel logFormat lg =
     (if logFormat = LogFormatJSON \<or> logFormat = LogFormatText then []
      else [(lg, formatFallback rid)]) @
     (if loglevel = LogLevelDebug \<or> loglevel = LogLevelInfo \<or> loglevel = LogLevelError then []
      else [(lg, levelFallback rid)])"

text \<open>Reading the package variable, as a call that can follow another.\<close>

definition activeLogger :: "'v State \<Rightarrow> 'v abort + Logger option" where
  "activeLogger s = Inr (zapLogger s)"

section \<open>Properties\<close>

subsection \<open>Auxiliary facts\<close>

lemmas level_defs = DebugLevel_def InfoLevel_def WarnLevel_def ErrorLevel_def FatalLevel_def
lemmas const_defs = LogLevelInfo_def LogLevelDebug_def LogLevelError_def LogFormatJSON_def LogFormatText_def

text \<open>What \<open>init\<close> does when the package is loaded.\<close>

lemma init_loaded: "init rid (loaded :: 'v State) = Inr started"
  by (simp add: init_def InitLogger_def getLogFormat_def getLogLevel_def const_defs
      Build_def NewProductionConfig_def loaded_def started_def defaultLogger_def Let_def)

text \<open>With an active logger, \<open>LogInfo\<close> without fields hands over one record.\<close>

lemma LogInfo_active:
  "zapLogger s = Some lg \<Longrightarrow>
   LogInfo rid m None s =
     Inr (s\<lparr>emitted := emitted s @
        [(lg, \<lparr>severity = InfoLevel, Message = m, Fields = [(''requestId'', StringType rid)]\<rparr>)]\<rparr>)"
  by (simp add: LogInfo_def zap_log_def zap_String_def)

text \<open>The two resolution functions, when a logger is active.\<close>

lemma getLogFormat_active:
  assumes "zapLogger s = Some lg"
  shows "getLogFormat rid F s =
     Inr (if F = LogFormatText then ''console'' else LogFormatJSON,
          if F = LogFormatJSON \<or> F = LogFormatText then s
          else s\<lparr>emitted := emitted s @ [(lg, formatFallback rid)]\<rparr>)"
  using assms by (simp add: getLogFormat_def const_defs LogInfo_active formatFallback_def)

lemma getLogLevel_active:
  assumes "zapLogger s = Some lg"
  shows "getLogLevel rid L s =
     Inr (if L = LogLevelDebug then DebugLevel else if L = LogLevelError then ErrorLevel else InfoLevel,
          if L = LogLevelDebug \<or> L = LogLevelInfo \<or> L = LogLevelError then s
          else s\<lparr>emitted := emitted s @ [(lg, levelFallback rid)]\<rparr>)"
  using assms by (simp add: getLogLevel_def const_defs LogInfo_active levelFallback_def)

text \<open>
  \<open>InitLogger\<close> started with an active logger \<open>lg\<close>: it hands the fallback records to
  \<open>lg\<close>, builds the resolved configuration after the first callback has changed it, and
  stores what \<open>Build\<close> returned.
\<close>

lemma InitLogger_builds:
  assumes "zapLogger s = Some lg"
  shows "InitLogger rid L F dev cbs s =
     (let built = Build ((case cbs of [] \<Rightarrow> (\<lambda>c. c) | cb # rest \<Rightarrow> cb) (resolvedConfig L F dev)) 1;
          s3 = s\<lparr>zapLogger := fst built, emitted := emitted s @ fallbackRecords rid L F lg\<rparr>
      in if snd built \<noteq> None then Inr (snd built, s3)
         else Inr (None, s3\<lparr>stdLog := fst built\<rparr>))"
proof -
  obtain enc s1 where f: "getLogFormat rid F s = Inr (enc, s1)"
    and enc: "enc = (if F = LogFormatText then ''console'' else LogFormatJSON)"
    and s1: "s1 = (if F = LogFormatJSON \<or> F = LogFormatText then s
          else s\<lparr>emitted := emitted s @ [(lg, formatFallback rid)]\<rparr>)"
    using getLogFormat_active [OF assms] by simp
  have a1: "zapLogger s1 = Some lg" using assms s1 by simp
  obtain lvl s2 where l: "getLogLevel rid L s1 = Inr (lvl, s2)"
    and lvl: "lvl = (if L = LogLevelDebug then DebugLevel else if L = LogLevelError then ErrorLevel else InfoLevel)"
    and s2: "s2 = (if L = LogLevelDebug \<or> L = LogLevelInfo \<or> L = LogLevelError then s1
          else s1\<lparr>emitted := emitted s1 @ [(lg, levelFallback rid)]\<rparr>)"
    using getLogLevel_active [OF a1] by simp
  have s2': "s2 = s\<lparr>emitted := emitted s @ fallbackRecords rid L F lg\<rparr>"
    unfolding s2 s1 fallbackRecords_def by simp
  have cb: "(if length cbs > 0 then (cbs ! 0) c else c) = (case cbs of [] \<Rightarrow> (\<lambda>c. c) | cb # rest \<Rightarrow> cb) c" for c :: Config
    by (cases cbs) simp_all
  have cfg: "(if dev
             then (if F = LogFormatText
                   then NewDevelopmentConfig\<lparr>EncodeLevel := CapitalColorLevelEncoder\<rparr>
                   else NewDevelopmentConfig)
             else NewProductionConfig)\<lparr>Encoding := enc\<rparr>\<lparr>Level := lvl\<rparr> = resolvedConfig L F dev"
    by (simp add: resolvedConfig_def enc lvl)
  have upd: "s2\<lparr>zapLogger := x\<rparr> = s\<lparr>zapLogger := x, emitted := emitted s @ fallbackRecords rid L F lg\<rparr>" for x
    by (simp add: s2')
  show ?thesis
    unfolding InitLogger_def Let_def f l cb sum.case prod.case cfg upd ..
qed

text \<open>The type assertion succeeds on an \<open>Error\<close> held by value and on nothing else.\<close>

lemma assertError_Some: "assertError x = Some v \<longleftrightarrow> x = Some (ErrorValue v)"
  by (cases x rule: assertError.cases) auto

text \<open>\<open>LogError\<close> on an error that is already logged, and on one that is not.\<close>

lemma LogError_logged: "LogError rid m (Some (ErrorValue v)) flds s = Inr (ErrorValue v, s)"
  by (simp add: LogError_def)

lemma LogError_unlogged:
  assumes "assertError err = None" and "zapLogger s = Some lg"
  shows "LogError rid m err flds s =
     Inr (ErrorValue (NewError m (causeText err)),
          s\<lparr>emitted := emitted s @
             [(lg, \<lparr>severity = ErrorLevel, Message = m,
                    Fields = [(''error'', StringType (causeText err)), (''requestId'', StringType rid)]
                      @ (case flds of None \<Rightarrow> [] | Some f \<Rightarrow> [(''fields'', ReflectType f)])\<rparr>)]\<rparr>)"
proof (cases err)
  case None
  with assms show ?thesis
    by (simp add: LogError_def zap_log_def zap_String_def zap_Any_def NewError_def causeText_def
        split: option.split)
next
  case (Some e)
  with assms show ?thesis
    by (simp add: LogError_def zap_log_def zap_String_def zap_Any_def NewError_def causeText_def
        split: option.split)
qed

lemma LogError_nil_logger:
  "assertError err = None \<Longrightarrow> zapLogger s = None \<Longrightarrow> LogError rid m err flds s = Inl NilPointerDereference"
  by (simp add: LogError_def zap_log_def Let_def split: option.split)

lemma LogError_returns_ErrorValue:
  "LogError rid m err flds s = Inr (r, s') \<Longrightarrow> \<exists>v. r = ErrorValue v"
  by (auto simp: LogError_def Let_def split: option.splits sum.splits)

lemma LogError_nested_eq: "LogError_nested rid m e s = LogError rid m e None s"
proof (cases "LogError rid m e None s")
  case (Inl a)
  then show ?thesis by (simp add: LogError_nested_def)
next
  case (Inr p)
  obtain r s1 where p: "p = (r, s1)" by (cases p)
  with Inr LogError_returns_ErrorValue obtain v where "r = ErrorValue v" by blast
  with Inr p show ?thesis by (simp add: LogError_nested_def LogError_logged)
qed

text \<open>Reading the records of a call off its outcome.\<close>

lemma recordsOf_append:
  "recordsOf s (Inr (s\<lparr>emitted := emitted s @ rs\<rparr>)) = map snd rs"
  by (simp add: recordsOf_def newRecords_def)

lemma recordsOf_same: "recordsOf s (Inr s) = []"
  by (simp add: recordsOf_def newRecords_def)

text \<open>The state after start-up.\<close>

lemma started_active: "zapLogger (started :: 'v State) = Some defaultLogger"
  by (simp add: started_def)

lemma started_emitted: "emitted (started :: 'v State) = []"
  by (simp add: started_def)

text \<open>The backend writes a record it is handed when the receiving logger enables its severity.\<close>

lemma written_handed:
  "written (s\<lparr>emitted := emitted s @ [(lg, e)]\<rparr>) =
     written s @ (if Enabled lg (severity e) then [e] else [])"
  by (simp add: written_def)

text \<open>An unknown level behaves like \<open>info\<close> and an unknown format like \<open>json\<close>, up to the fallback record.\<close>

lemma fallbackRecords_level:
  assumes "L \<noteq> LogLevelDebug" "L \<noteq> LogLevelInfo" "L \<noteq> LogLevelError"
  shows "fallbackRecords rid L F lg = fallbackRecords rid LogLevelInfo F lg @ [(lg, levelFallback rid)]"
  using assms by (simp add: fallbackRecords_def)

lemma resolvedConfig_level:
  assumes "L \<noteq> LogLevelDebug" "L \<noteq> LogLevelInfo" "L \<noteq> LogLevelError"
  shows "resolvedConfig L F dev = resolvedConfig LogLevelInfo F dev"
  using assms by (simp add: resolvedConfig_def const_defs)

lemma fallbackRecords_format:
  assumes "F \<noteq> LogFormatJSON" "F \<noteq> LogFormatText"
  shows "fallbackRecords rid L F lg = (lg, formatFallback rid) # fallbackRecords rid L LogFormatJSON lg"
  using assms by (simp add: fallbackRecords_def)

lemma resolvedConfig_format:
  assumes "F \<noteq> LogFormatJSON" "F \<noteq> LogFormatText"
  shows "resolvedConfig L F dev = resolvedConfig L LogFormatJSON dev"
  using assms by (simp add: resolvedConfig_def const_defs)

text \<open>What \<open>InitLogger\<close> has built when it returns, whatever the state it started in.\<close>

lemma getLogFormat_result:
  "getLogFormat rid F s = Inr (enc, s1) \<Longrightarrow>
     enc = (if F = LogFormatText then ''console'' else LogFormatJSON)"
  by (auto simp: getLogFormat_def const_defs split: if_splits sum.splits)

lemma getLogLevel_result:
  "getLogLevel rid L s = Inr (lvl, s1) \<Longrightarrow>
     lvl = (if L = LogLevelDebug then DebugLevel else if L = LogLevelError then ErrorLevel else InfoLevel)"
  by (auto simp: getLogLevel_def const_defs split: if_splits sum.splits)

lemma InitLogger_result:
  assumes "InitLogger rid L F dev cbs s = Inr (err, s')"
  shows "zapLogger s' = fst (Build ((case cbs of [] \<Rightarrow> (\<lambda>c. c) | cb # rest \<Rightarrow> cb) (resolvedConfig L F dev)) 1)
       \<and> err = snd (Build ((case cbs of [] \<Rightarrow> (\<lambda>c. c) | cb # rest \<Rightarrow> cb) (resolvedConfig L F dev)) 1)"
proof -
  from assms obtain enc s1 where f: "getLogFormat rid F s = Inr (enc, s1)"
    by (cases "getLogFormat rid F s") (auto simp: InitLogger_def)
  from assms f obtain lvl s2 where l: "getLogLevel rid L s1 = Inr (lvl, s2)"
    by (cases "getLogLevel rid L s1") (auto simp: InitLogger_def Let_def)
  have cb: "(if length cbs > 0 then (cbs ! 0) c else c) = (case cbs of [] \<Rightarrow> (\<lambda>c. c) | cb # rest \<Rightarrow> cb) c" for c :: Config
    by (cases cbs) simp_all
  have cfg: "(if dev
             then (if F = LogFormatText
                   then NewDevelopmentConfig\<lparr>EncodeLevel := CapitalColorLevelEncoder\<rparr>
                   else NewDevelopmentConfig)
             else NewProductionConfig)\<lparr>Encoding := enc\<rparr>\<lparr>Level := lvl\<rparr> = resolvedConfig L F dev"
    using getLogFormat_result [OF f] getLogLevel_result [OF l] by (simp add: resolvedConfig_def)
  from assms show ?thesis
    unfolding InitLogger_def Let_def f l cb sum.case prod.case cfg
    by (auto split: if_splits)
qed

lemma InitLogger_error_nil:
  assumes "InitLogger rid L F dev cbs s = Inr (Some e, s')"
  shows "zapLogger s' = None"
  using InitLogger_result [OF assms] by (auto simp: Build_def split: if_splits)

lemma Build_success: "snd (Build c k) = None \<Longrightarrow> fst (Build c k) = Some \<lparr>cfg = c, callerSkip = k\<rparr>"
  by (auto simp: Build_def split: if_splits)

text \<open>Three calls of \<open>InitLogger\<close> in the state after start-up.\<close>

lemma InitLogger_error_text:
  "InitLogger ''internal'' LogLevelError LogFormatText True [setEncoding ''console''] (started :: nat State) =
     Inr (None, started\<lparr>
       zapLogger := Some \<lparr>cfg = setEncoding ''console'' (resolvedConfig LogLevelError LogFormatText True), callerSkip = 1\<rparr>,
       stdLog := Some \<lparr>cfg = setEncoding ''console'' (resolvedConfig LogLevelError LogFormatText True), callerSkip = 1\<rparr>\<rparr>)"
  by (simp add: InitLogger_builds [OF started_active] Let_def Build_def setEncoding_def
      fallbackRecords_def const_defs)

lemma InitLogger_two_callbacks:
  "InitLogger ''internal'' LogLevelInfo LogFormatJSON False [setLevel DebugLevel, setEncoding ''xml'']
      (started :: nat State) =
   Inr (None, started\<lparr>
      zapLogger := Some \<lparr>cfg = setLevel DebugLevel (resolvedConfig LogLevelInfo LogFormatJSON False), callerSkip = 1\<rparr>,
      stdLog := Some \<lparr>cfg = setLevel DebugLevel (resolvedConfig LogLevelInfo LogFormatJSON False), callerSkip = 1\<rparr>\<rparr>)"
  by (simp add: InitLogger_builds [OF started_active] Let_def Build_def setLevel_def
      resolvedConfig_def fallbackRecords_def const_defs NewProductionConfig_def)

lemma InitLogger_no_callback:
  "InitLogger ''internal'' LogLevelInfo LogFormatJSON False [] (started :: nat State) =
   Inr (None, started\<lparr>
      zapLogger := Some \<lparr>cfg = resolvedConfig LogLevelInfo LogFormatJSON False, callerSkip = 1\<rparr>,
      stdLog := Some \<lparr>cfg = resolvedConfig LogLevelInfo LogFormatJSON False, callerSkip = 1\<rparr>\<rparr>)"
  by (simp add: InitLogger_builds [OF started_active] Let_def Build_def
      resolvedConfig_def fallbackRecords_def const_defs NewProductionConfig_def)

text \<open>The record of each log call, and what it holds under the key \<open>fields\<close>.\<close>

lemma recordsOf_exit:
  "recordsOf s (Inl (OsExit (s\<lparr>emitted := emitted s @ rs\<rparr>))) = map snd rs"
  by (simp add: recordsOf_def newRecords_def)

lemma LogDebug_active:
  assumes "zapLogger s = Some lg"
  shows "LogDebug rid m flds s =
     Inr (s\<lparr>emitted := emitted s @
       [(lg, \<lparr>severity = DebugLevel, Message = m,
              Fields = (''requestId'', StringType rid) #
                (case flds of None \<Rightarrow> [] | Some f \<Rightarrow> [(''fields'', ReflectType f)])\<rparr>)]\<rparr>)"
  using assms by (simp add: LogDebug_def zap_log_def zap_String_def zap_Any_def split: option.split)

lemma LogInfo_active_fields:
  assumes "zapLogger s = Some lg"
  shows "LogInfo rid m flds s =
     Inr (s\<lparr>emitted := emitted s @
       [(lg, \<lparr>severity = InfoLevel, Message = m,
              Fields = (''requestId'', StringType rid) #
                (case flds of None \<Rightarrow> [] | Some f \<Rightarrow> [(''fields'', ReflectType f)])\<rparr>)]\<rparr>)"
  using assms by (simp add: LogInfo_def zap_log_def zap_String_def zap_Any_def split: option.split)

lemma LogWarn_active:
  assumes "zapLogger s = Some lg"
  shows "LogWarn rid m flds s =
     Inr (s\<lparr>emitted := emitted s @
       [(lg, \<lparr>severity = WarnLevel, Message = m,
              Fields = (''requestId'', StringType rid) #
                (case flds of None \<Rightarrow> [] | Some f \<Rightarrow> [(''fields'', ReflectType f)])\<rparr>)]\<rparr>)"
  using assms by (simp add: LogWarn_def zap_log_def zap_String_def zap_Any_def split: option.split)

lemma LogFatal_active:
  assumes "zapLogger s = Some lg"
  shows "LogFatal rid m flds s =
     Inl (OsExit (s\<lparr>emitted := emitted s @
       [(lg, \<lparr>severity = FatalLevel, Message = m,
              Fields = (''requestId'', StringType rid) #
                (case flds of None \<Rightarrow> [] | Some f \<Rightarrow> [(''fields'', ReflectType f)])\<rparr>)]\<rparr>))"
  using assms
  by (simp add: LogFatal_def zap_Fatal_def zap_log_def zap_String_def zap_Any_def split: option.split)

lemma fieldsKey_absent:
  "fieldsKey \<lparr>severity = l, Message = m, Fields = [(''requestId'', v)]\<rparr> = None"
  by (simp add: fieldsKey_def)

lemma fieldsKey_present:
  "fieldsKey \<lparr>severity = l, Message = m, Fields = [(''requestId'', v), (''fields'', w)]\<rparr> = Some w"
  by (simp add: fieldsKey_def)

lemma fieldsKey_error_absent:
  "fieldsKey \<lparr>severity = l, Message = m, Fields = [(''error'', u), (''requestId'', v)]\<rparr> = None"
  by (simp add: fieldsKey_def)

lemma fieldsKey_error_present:
  "fieldsKey \<lparr>severity = l, Message = m, Fields = [(''error'', u), (''requestId'', v), (''fields'', w)]\<rparr> = Some w"
  by (simp add: fieldsKey_def)

lemmas fieldsKey_simps = fieldsKey_absent fieldsKey_present fieldsKey_error_absent fieldsKey_error_present

lemma LogDebug_fieldsKey:
  assumes "zapLogger s = Some lg"
  shows "map fieldsKey (recordsOf s (LogDebug rid m flds s)) = [map_option ReflectType flds]"
  by (cases flds) (simp_all add: LogDebug_active [OF assms] recordsOf_append fieldsKey_simps)

lemma LogInfo_fieldsKey:
  assumes "zapLogger s = Some lg"
  shows "map fieldsKey (recordsOf s (LogInfo rid m flds s)) = [map_option ReflectType flds]"
  by (cases flds) (simp_all add: LogInfo_active_fields [OF assms] recordsOf_append fieldsKey_simps)

lemma LogWarn_fieldsKey:
  assumes "zapLogger s = Some lg"
  shows "map fieldsKey (recordsOf s (LogWarn rid m flds s)) = [map_option ReflectType flds]"
  by (cases flds) (simp_all add: LogWarn_active [OF assms] recordsOf_append fieldsKey_simps)

lemma LogFatal_fieldsKey:
  assumes "zapLogger s = Some lg"
  shows "map fieldsKey (recordsOf s (LogFatal rid m flds s)) = [map_option ReflectType flds]"
  by (cases flds) (simp_all add: LogFatal_active [OF assms] recordsOf_exit fieldsKey_simps)

lemma LogError_fieldsKey:
  assumes "zapLogger s = Some lg" and "assertError err = None"
  shows "map fieldsKey (recordsOf s (stateOf (LogError rid m err flds s))) = [map_option ReflectType flds]"
  by (cases flds)
    (simp_all add: LogError_unlogged [OF assms(2,1)] stateOf_def recordsOf_append fieldsKey_simps)

section \<open>The claims\<close>

subsection \<open>Logging an error once\<close>

text \<open>
  Claim C1, as amended. While a logger is active, the nested call
  \<open>LogError(rid, m, LogError(rid, m, e, nil), nil)\<close> does what the inner call alone does:
  the outer call hands no record to the backend and returns the value of the inner call
  unchanged. The inner call returns \<open>e\<close> itself and logs nothing when \<open>e\<close> is already an
  \<open>Error\<close>; for every other \<open>e\<close>, the nil error included, it hands over exactly one
  record of severity Error and returns the new \<open>Error\<close>.
\<close>

theorem LogError_nested_logs_once:
  assumes "zapLogger s = Some lg"
  shows "LogError_nested rid m e s = LogError rid m e None s \<and>
    LogError rid m e None s =
      (case assertError e of
         Some v \<Rightarrow> Inr (ErrorValue v, s)
       | None \<Rightarrow>
           Inr (ErrorValue (NewError m (causeText e)),
                s\<lparr>emitted := emitted s @
                  [(lg, \<lparr>severity = ErrorLevel, Message = m,
                         Fields = [(''error'', StringType (causeText e)),
                                   (''requestId'', StringType rid)]\<rparr>)]\<rparr>))"
proof (cases "assertError e")
  case None
  from LogError_unlogged [OF None assms, of rid m None] None show ?thesis
    by (simp add: LogError_nested_eq)
next
  case (Some v)
  then have "e = Some (ErrorValue v)" by (simp add: assertError_Some)
  with Some show ?thesis by (simp add: LogError_nested_eq LogError_logged)
qed

text \<open>The same at a concrete error that has not been logged, in the state after start-up.\<close>

theorem LogError_nested_logs_once_witness:
  "LogError_nested ''req'' ''save failed'' (Some (ErrorString ''disk full'')) (started :: nat State) =
     LogError ''req'' ''save failed'' (Some (ErrorString ''disk full'')) None started \<and>
   LogError ''req'' ''save failed'' (Some (ErrorString ''disk full'')) None (started :: nat State) =
     Inr (ErrorValue (NewError ''save failed'' ''disk full''),
          started\<lparr>emitted :=
            [(defaultLogger, \<lparr>severity = ErrorLevel, Message = ''save failed'',
                 Fields = [(''error'', StringType ''disk full''),
                           (''requestId'', StringType ''req'')]\<rparr>)]\<rparr>)"
  using LogError_nested_logs_once [of "started :: nat State" defaultLogger "''req''" "''save failed''" "Some (ErrorString ''disk full'')"]
  by (simp add: started_def causeText_def)

text \<open>
  Claim C1 as stated expects one record for every error value \<open>e\<close>. For an \<open>e\<close> that is
  already an \<open>Error\<close> the nested call hands over no record at all.
\<close>

theorem LogError_nested_already_logged_counterexample:
  "LogError_nested ''req'' ''save failed'' (Some (ErrorValue (NewError ''save failed'' ''disk full'')))
      (started :: nat State) =
     Inr (ErrorValue (NewError ''save failed'' ''disk full''), started) \<and>
   length (recordsOf (started :: nat State)
     (stateOf (LogError_nested ''req'' ''save failed''
        (Some (ErrorValue (NewError ''save failed'' ''disk full''))) started))) \<noteq> 1"
  by (simp add: LogError_nested_def LogError_logged stateOf_def recordsOf_same)

subsection \<open>A failed build\<close>

text \<open>
  Claim C2 says that a failed build leaves the previous logger active. The assignment
  \<open>zapLogger, err = config.Build(...)\<close> stores the first result of \<open>Build\<close> before the error
  is looked at. Here the default logger is active, the callback asks for an encoding the
  backend does not have, \<open>InitLogger\<close> returns the error, \<open>zapLogger\<close> is nil afterwards,
  and the next log call panics.
\<close>

theorem InitLogger_failed_build_drops_logger:
  "InitLogger ''internal'' LogLevelInfo LogFormatJSON False [setEncoding ''xml''] (started :: nat State) =
     Inr (Some ''no encoder registered for name xml'', started\<lparr>zapLogger := None\<rparr>) \<and>
   zapLogger (started :: nat State) = Some defaultLogger \<and>
   after (InitLogger ''internal'' LogLevelInfo LogFormatJSON False [setEncoding ''xml''] (started :: nat State))
     (LogInfo ''req'' ''hello'' None) = Inl NilPointerDereference"
proof -
  have a: "zapLogger (started :: nat State) = Some defaultLogger" by (simp add: started_def)
  have b: "InitLogger ''internal'' LogLevelInfo LogFormatJSON False [setEncoding ''xml''] (started :: nat State) =
     Inr (Some ''no encoder registered for name xml'', started\<lparr>zapLogger := None\<rparr>)"
    by (simp add: InitLogger_builds [OF a] Let_def Build_def setEncoding_def resolvedConfig_def
        fallbackRecords_def const_defs)
  show ?thesis
    by (simp add: a b after_def LogInfo_def zap_log_def)
qed

subsection \<open>Fallbacks of the level and of the format\<close>

text \<open>
  Claim C3. For a level string that is none of \<open>debug\<close>, \<open>info\<close> and \<open>error\<close>, and with a
  logger active, \<open>getLogLevel\<close> returns the threshold Info and hands exactly one record, of
  severity Info, to the active logger; the configuration that \<open>InitLogger\<close> resolves has the
  threshold Info, and the whole call of \<open>InitLogger\<close> does what it does for the level
  \<open>info\<close> with that one record added.
\<close>

theorem getLogLevel_invalid_falls_back:
  fixes s :: "'v State"
  assumes "L \<noteq> LogLevelDebug" and "L \<noteq> LogLevelInfo" and "L \<noteq> LogLevelError"
    and "zapLogger s = Some lg"
  shows "getLogLevel rid L s =
           Inr (InfoLevel, s\<lparr>emitted := emitted s @ [(lg, levelFallback rid)]\<rparr>) \<and>
         severity (levelFallback rid :: 'v Entry) = InfoLevel \<and>
         Level (resolvedConfig L F dev) = InfoLevel \<and>
         InitLogger rid L F dev cbs s =
           (case InitLogger rid LogLevelInfo F dev cbs s of
              Inl a \<Rightarrow> Inl a
            | Inr (err, s') \<Rightarrow> Inr (err, s'\<lparr>emitted := emitted s' @ [(lg, levelFallback rid)]\<rparr>))"
    (is "?A \<and> ?B \<and> ?C \<and> ?D")
proof -
  have A: ?A using assms by (simp add: getLogLevel_active)
  have B: ?B by (simp add: levelFallback_def)
  have C: ?C using assms(1-3) by (simp add: resolvedConfig_def)
  have D: ?D
    unfolding InitLogger_builds [OF assms(4)] fallbackRecords_level [OF assms(1-3)]
      resolvedConfig_level [OF assms(1-3)] Let_def
    by simp
  from A B C D show ?thesis by blast
qed

text \<open>The same for the level string \<open>verbose\<close> in the state after start-up.\<close>

theorem getLogLevel_invalid_falls_back_witness:
  "getLogLevel ''internal'' ''verbose'' (started :: nat State) =
     Inr (InfoLevel, started\<lparr>emitted := [(defaultLogger, levelFallback ''internal'')]\<rparr>) \<and>
   severity (levelFallback ''internal'' :: nat Entry) = InfoLevel \<and>
   Level (resolvedConfig ''verbose'' ''json'' False) = InfoLevel \<and>
   InitLogger ''internal'' ''verbose'' ''json'' False [] (started :: nat State) =
     Inr (None, started\<lparr>zapLogger := Some \<lparr>cfg = NewProductionConfig, callerSkip = 1\<rparr>,
                         stdLog := Some \<lparr>cfg = NewProductionConfig, callerSkip = 1\<rparr>,
                         emitted := [(defaultLogger, levelFallback ''internal'')]\<rparr>)"
proof -
  have i: "InitLogger ''internal'' LogLevelInfo ''json'' False [] (started :: nat State) =
      Inr (None, started\<lparr>zapLogger := Some \<lparr>cfg = NewProductionConfig, callerSkip = 1\<rparr>,
                         stdLog := Some \<lparr>cfg = NewProductionConfig, callerSkip = 1\<rparr>\<rparr>)"
    by (simp add: InitLogger_builds [OF started_active] Let_def Build_def resolvedConfig_def
        fallbackRecords_def const_defs NewProductionConfig_def)
  have e: "emitted (started :: nat State) = []" by (simp add: started_def)
  show ?thesis
    using getLogLevel_invalid_falls_back [of "''verbose''" "started :: nat State" defaultLogger "''internal''" "''json''" False "[]"]
    by (simp add: const_defs started_active i [unfolded const_defs] e)
qed

text \<open>
  Claim C4. For a format string that is neither \<open>json\<close> nor \<open>text\<close>, and with a logger
  active, \<open>getLogFormat\<close> returns the encoding \<open>json\<close> and hands exactly one record, of
  severity Info, to the active logger; \<open>text\<close> gives \<open>console\<close> and \<open>json\<close> gives \<open>json\<close>,
  both in any state and with the state unchanged. The whole call of \<open>InitLogger\<close> does what
  it does for the format \<open>json\<close> once the one record has been handed over.
\<close>

theorem getLogFormat_invalid_falls_back:
  fixes s t :: "'v State"
  assumes "F \<noteq> LogFormatJSON" and "F \<noteq> LogFormatText" and "zapLogger s = Some lg"
  shows "getLogFormat rid F s =
           Inr (''json'', s\<lparr>emitted := emitted s @ [(lg, formatFallback rid)]\<rparr>) \<and>
         severity (formatFallback rid :: 'v Entry) = InfoLevel \<and>
         getLogFormat rid LogFormatText t = Inr (''console'', t) \<and>
         getLogFormat rid LogFormatJSON t = Inr (''json'', t) \<and>
         Encoding (resolvedConfig L F dev) = ''json'' \<and>
         Encoding (resolvedConfig L LogFormatText dev) = ''console'' \<and>
         Encoding (resolvedConfig L LogFormatJSON dev) = ''json'' \<and>
         InitLogger rid L F dev cbs s =
           InitLogger rid L LogFormatJSON dev cbs
             (s\<lparr>emitted := emitted s @ [(lg, formatFallback rid)]\<rparr>)"
    (is "?A \<and> ?B \<and> ?C \<and> ?D \<and> ?E \<and> ?F \<and> ?G \<and> ?H")
proof -
  have A: ?A using assms by (simp add: getLogFormat_active const_defs)
  have B: ?B by (simp add: formatFallback_def)
  have C: ?C by (simp add: getLogFormat_def const_defs)
  have D: ?D by (simp add: getLogFormat_def const_defs)
  have E: ?E using assms(1,2) by (simp add: resolvedConfig_def const_defs)
  have F: ?F by (simp add: resolvedConfig_def const_defs)
  have G: ?G by (simp add: resolvedConfig_def const_defs)
  have a': "zapLogger (s\<lparr>emitted := emitted s @ [(lg, formatFallback rid)]\<rparr>) = Some lg"
    using assms(3) by simp
  have H: ?H
    unfolding InitLogger_builds [OF assms(3)] InitLogger_builds [OF a']
      fallbackRecords_format [OF assms(1,2)] resolvedConfig_format [OF assms(1,2)] Let_def
    by simp
  from A B C D E F G H show ?thesis by blast
qed

text \<open>The same for the format string \<open>yaml\<close> in the state after start-up.\<close>

theorem getLogFormat_invalid_falls_back_witness:
  "getLogFormat ''internal'' ''yaml'' (started :: nat State) =
     Inr (''json'', started\<lparr>emitted := [(defaultLogger, formatFallback ''internal'')]\<rparr>) \<and>
   severity (formatFallback ''internal'' :: nat Entry) = InfoLevel \<and>
   getLogFormat ''internal'' LogFormatText (started :: nat State) = Inr (''console'', started) \<and>
   getLogFormat ''internal'' LogFormatJSON (started :: nat State) = Inr (''json'', started) \<and>
   Encoding (resolvedConfig ''info'' ''yaml'' True) = ''json'' \<and>
   Encoding (resolvedConfig ''info'' LogFormatText True) = ''console'' \<and>
   Encoding (resolvedConfig ''info'' LogFormatJSON True) = ''json'' \<and>
   InitLogger ''internal'' ''info'' ''yaml'' True [] (started :: nat State) =
     InitLogger ''internal'' ''info'' LogFormatJSON True []
       (started\<lparr>emitted := [(defaultLogger, formatFallback ''internal'')]\<rparr>)"
  using getLogFormat_invalid_falls_back [where ?'v = nat, of "''yaml''" started defaultLogger "''internal''" started "''info''" True "[]"]
  by (simp add: const_defs started_active started_emitted)

subsection \<open>The enabled checks\<close>

text \<open>
  Claim C5, as amended. After a call of \<open>InitLogger\<close> with the level \<open>error\<close> that has
  returned no error, and whose override callback, if one was given, has left the threshold
  of the resolved configuration at Error, \<open>LogDebugEnabled\<close> and \<open>LogInfoEnabled\<close> return
  false and \<open>LogErrorEnabled\<close> returns true.
\<close>

theorem enabled_checks_after_level_error:
  assumes "InitLogger rid LogLevelError F dev cbs s = Inr (None, s')"
    and "cbs \<noteq> [] \<Longrightarrow> Level ((cbs ! 0) (resolvedConfig LogLevelError F dev)) = ErrorLevel"
  shows "LogDebugEnabled s' = Inr False \<and> LogInfoEnabled s' = Inr False \<and>
         LogErrorEnabled s' = Inr True"
proof -
  let ?c = "(case cbs of [] \<Rightarrow> (\<lambda>c. c) | cb # rest \<Rightarrow> cb) (resolvedConfig LogLevelError F dev)"
  have lv: "Level ?c = ErrorLevel"
  proof (cases cbs)
    case Nil
    then show ?thesis by (simp add: resolvedConfig_def const_defs)
  next
    case (Cons cb rest)
    with assms(2) show ?thesis by simp
  qed
  from InitLogger_result [OF assms(1)]
  have "zapLogger s' = fst (Build ?c 1)" and "snd (Build ?c 1) = None" by simp_all
  then have z: "zapLogger s' = Some \<lparr>cfg = ?c, callerSkip = 1\<rparr>"
    by (simp add: Build_success)
  show ?thesis
    by (simp add: LogDebugEnabled_def LogInfoEnabled_def LogErrorEnabled_def coreEnabled_def z
        Enabled_def lv level_defs)
qed

text \<open>The same for a development logger in text format with a callback that sets the encoding.\<close>

theorem enabled_checks_after_level_error_witness:
  "resultOf (InitLogger ''internal'' LogLevelError LogFormatText True [setEncoding ''console'']
      (started :: nat State)) = Some None \<and>
   Level (setEncoding ''console'' (resolvedConfig LogLevelError LogFormatText True)) = ErrorLevel \<and>
   after (InitLogger ''internal'' LogLevelError LogFormatText True [setEncoding ''console'']
      (started :: nat State)) LogDebugEnabled = Inr False \<and>
   after (InitLogger ''internal'' LogLevelError LogFormatText True [setEncoding ''console'']
      (started :: nat State)) LogInfoEnabled = Inr False \<and>
   after (InitLogger ''internal'' LogLevelError LogFormatText True [setEncoding ''console'']
      (started :: nat State)) LogErrorEnabled = Inr True"
proof -
  have lv: "Level (setEncoding ''console'' (resolvedConfig LogLevelError LogFormatText True)) = ErrorLevel"
    by (simp add: setEncoding_def resolvedConfig_def const_defs)
  show ?thesis
    using enabled_checks_after_level_error [OF InitLogger_error_text] lv
    by (simp add: InitLogger_error_text resultOf_def after_def)
qed

text \<open>
  Claim C5 as stated holds for every successful call with the level \<open>error\<close>. A callback
  that sets the threshold to Debug runs after the level has been resolved: the call succeeds
  and \<open>LogDebugEnabled\<close> returns true.
\<close>

theorem enabled_checks_overridden_counterexample:
  "resultOf (InitLogger ''internal'' LogLevelError LogFormatJSON False [setLevel DebugLevel]
      (started :: nat State)) = Some None \<and>
   after (InitLogger ''internal'' LogLevelError LogFormatJSON False [setLevel DebugLevel]
      (started :: nat State)) LogDebugEnabled = Inr True"
  by (simp add: InitLogger_builds [OF started_active] Let_def Build_def setLevel_def
      resolvedConfig_def fallbackRecords_def const_defs resultOf_def after_def
      LogDebugEnabled_def coreEnabled_def Enabled_def NewProductionConfig_def)

subsection \<open>The nil error\<close>

text \<open>
  Claim C6. With a logger active, \<open>LogError(rid, m, nil, nil)\<close> returns normally: it hands
  one record of severity Error to the logger, with the empty string under the key \<open>error\<close>,
  and returns an \<open>Error\<close> with the message \<open>m\<close> and the empty string as its raw error.
\<close>

theorem LogError_nil_cause:
  assumes "zapLogger s = Some lg"
  shows "LogError rid m None None s =
     Inr (ErrorValue (NewError m []),
          s\<lparr>emitted := emitted s @
            [(lg, \<lparr>severity = ErrorLevel, Message = m,
                   Fields = [(''error'', StringType []), (''requestId'', StringType rid)]\<rparr>)]\<rparr>) \<and>
     RawError (NewError m []) = []"
  using LogError_unlogged [of None s lg rid m None] assms
  by (simp add: causeText_def RawError_def NewError_def)

text \<open>The same at a concrete request in the state after start-up.\<close>

theorem LogError_nil_cause_witness:
  "LogError ''req'' ''no cause'' None None (started :: nat State) =
     Inr (ErrorValue (NewError ''no cause'' []),
          started\<lparr>emitted :=
            [(defaultLogger, \<lparr>severity = ErrorLevel, Message = ''no cause'',
                   Fields = [(''error'', StringType []), (''requestId'', StringType ''req'')]\<rparr>)]\<rparr>) \<and>
     RawError (NewError ''no cause'' []) = []"
proof -
  have e: "emitted (started :: nat State) = []" by (simp add: started_def)
  show ?thesis
    using LogError_nil_cause [OF started_active, of "''req''" "''no cause''", where ?'a = nat]
    by (simp add: e)
qed

subsection \<open>The key for the fields\<close>

text \<open>
  Claim C7. With a logger active, each of \<open>LogDebug\<close>, \<open>LogInfo\<close>, \<open>LogWarn\<close>, \<open>LogFatal\<close>,
  and \<open>LogError\<close> on an error that is not logged yet, hands over exactly one record; the
  record has no key \<open>fields\<close> when the fields are nil, and has the key \<open>fields\<close> with the
  empty map when the fields are an empty map, so the two records differ.
\<close>

theorem fields_key_only_when_present:
  fixes s :: "'v State"
  assumes "zapLogger s = Some lg" and "assertError err = None"
  shows "map fieldsKey (recordsOf s (LogDebug rid m None s)) = [None] \<and>
         map fieldsKey (recordsOf s (LogDebug rid m (Some Map.empty) s)) = [Some (ReflectType Map.empty)] \<and>
         map fieldsKey (recordsOf s (LogInfo rid m None s)) = [None] \<and>
         map fieldsKey (recordsOf s (LogInfo rid m (Some Map.empty) s)) = [Some (ReflectType Map.empty)] \<and>
         map fieldsKey (recordsOf s (LogWarn rid m None s)) = [None] \<and>
         map fieldsKey (recordsOf s (LogWarn rid m (Some Map.empty) s)) = [Some (ReflectType Map.empty)] \<and>
         map fieldsKey (recordsOf s (stateOf (LogError rid m err None s))) = [None] \<and>
         map fieldsKey (recordsOf s (stateOf (LogError rid m err (Some Map.empty) s))) =
           [Some (ReflectType Map.empty)] \<and>
         map fieldsKey (recordsOf s (LogFatal rid m None s)) = [None] \<and>
         map fieldsKey (recordsOf s (LogFatal rid m (Some Map.empty) s)) = [Some (ReflectType Map.empty)] \<and>
         recordsOf s (LogDebug rid m None s) \<noteq> recordsOf s (LogDebug rid m (Some Map.empty) s) \<and>
         recordsOf s (LogInfo rid m None s) \<noteq> recordsOf s (LogInfo rid m (Some Map.empty) s) \<and>
         recordsOf s (LogWarn rid m None s) \<noteq> recordsOf s (LogWarn rid m (Some Map.empty) s) \<and>
         recordsOf s (stateOf (LogError rid m err None s)) \<noteq>
           recordsOf s (stateOf (LogError rid m err (Some Map.empty) s)) \<and>
         recordsOf s (LogFatal rid m None s) \<noteq> recordsOf s (LogFatal rid m (Some Map.empty) s)"
proof -
  have differ: "xs \<noteq> ys" if "map fieldsKey xs = [None]" and "map fieldsKey ys = [Some w]"
    for xs ys :: "'v Entry list" and w
    using that by auto
  note d = LogDebug_fieldsKey [OF assms(1), of rid m] and i = LogInfo_fieldsKey [OF assms(1), of rid m]
    and w = LogWarn_fieldsKey [OF assms(1), of rid m] and f = LogFatal_fieldsKey [OF assms(1), of rid m]
    and e = LogError_fieldsKey [OF assms, of rid m]
  have "recordsOf s (LogDebug rid m None s) \<noteq> recordsOf s (LogDebug rid m (Some Map.empty) s)"
    by (rule differ) (simp_all add: d)
  moreover have "recordsOf s (LogInfo rid m None s) \<noteq> recordsOf s (LogInfo rid m (Some Map.empty) s)"
    by (rule differ) (simp_all add: i)
  moreover have "recordsOf s (LogWarn rid m None s) \<noteq> recordsOf s (LogWarn rid m (Some Map.empty) s)"
    by (rule differ) (simp_all add: w)
  moreover have "recordsOf s (stateOf (LogError rid m err None s)) \<noteq>
      recordsOf s (stateOf (LogError rid m err (Some Map.empty) s))"
    by (rule differ) (simp_all add: e)
  moreover have "recordsOf s (LogFatal rid m None s) \<noteq> recordsOf s (LogFatal rid m (Some Map.empty) s)"
    by (rule differ) (simp_all add: f)
  ultimately show ?thesis
    by (simp add: d i w f e)
qed

text \<open>The same at a concrete request in the state after start-up.\<close>

theorem fields_key_only_when_present_witness:
  "map fieldsKey (recordsOf (started :: nat State) (LogDebug ''req'' ''hello'' None started)) = [None] \<and>
   map fieldsKey (recordsOf (started :: nat State) (LogDebug ''req'' ''hello'' (Some Map.empty) started)) =
     [Some (ReflectType Map.empty)] \<and>
   map fieldsKey (recordsOf (started :: nat State) (LogInfo ''req'' ''hello'' None started)) = [None] \<and>
   map fieldsKey (recordsOf (started :: nat State) (LogInfo ''req'' ''hello'' (Some Map.empty) started)) =
     [Some (ReflectType Map.empty)] \<and>
   map fieldsKey (recordsOf (started :: nat State) (LogWarn ''req'' ''hello'' None started)) = [None] \<and>
   map fieldsKey (recordsOf (started :: nat State) (LogWarn ''req'' ''hello'' (Some Map.empty) started)) =
     [Some (ReflectType Map.empty)] \<and>
   map fieldsKey (recordsOf (started :: nat State)
     (stateOf (LogError ''req'' ''hello'' (Some (ErrorString ''boom'')) None started))) = [None] \<and>
   map fieldsKey (recordsOf (started :: nat State)
     (stateOf (LogError ''req'' ''hello'' (Some (ErrorString ''boom'')) (Some Map.empty) started))) =
     [Some (ReflectType Map.empty)] \<and>
   map fieldsKey (recordsOf (started :: nat State) (LogFatal ''req'' ''hello'' None started)) = [None] \<and>
   map fieldsKey (recordsOf (started :: nat State) (LogFatal ''req'' ''hello'' (Some Map.empty) started)) =
     [Some (ReflectType Map.empty)] \<and>
   recordsOf (started :: nat State) (LogDebug ''req'' ''hello'' None started) \<noteq>
     recordsOf started (LogDebug ''req'' ''hello'' (Some Map.empty) started) \<and>
   recordsOf (started :: nat State) (LogInfo ''req'' ''hello'' None started) \<noteq>
     recordsOf started (LogInfo ''req'' ''hello'' (Some Map.empty) started) \<and>
   recordsOf (started :: nat State) (LogWarn ''req'' ''hello'' None started) \<noteq>
     recordsOf started (LogWarn ''req'' ''hello'' (Some Map.empty) started) \<and>
   recordsOf (started :: nat State)
       (stateOf (LogError ''req'' ''hello'' (Some (ErrorString ''boom'')) None started)) \<noteq>
     recordsOf started
       (stateOf (LogError ''req'' ''hello'' (Some (ErrorString ''boom'')) (Some Map.empty) started)) \<and>
   recordsOf (started :: nat State) (LogFatal ''req'' ''hello'' None started) \<noteq>
     recordsOf started (LogFatal ''req'' ''hello'' (Some Map.empty) started)"
proof -
  have a: "assertError (Some (ErrorString ''boom'')) = None" by simp
  show ?thesis
    using fields_key_only_when_present [OF started_active a, of "''req''" "''hello''", where ?'v = nat] .
qed

subsection \<open>What LogError returns\<close>

text \<open>
  Claim C8. With a logger active, \<open>LogError\<close> returns a value of the type \<open>Error\<close> for every
  error and every fields argument. When the error was not an \<open>Error\<close> already, the value is
  \<open>NewError\<close> of the message and the text of the cause (empty for the nil error): its method
  \<open>Error\<close> gives the message and \<open>RawError\<close> the text of the cause.
\<close>

theorem LogError_returns_Error:
  fixes s :: "'v State"
  assumes "zapLogger s = Some lg"
  shows "\<exists>v s'. LogError rid m err flds s = Inr (ErrorValue v, s') \<and>
           (assertError err = None \<longrightarrow>
              v = NewError m (causeText err) \<and> Error_Error v = m \<and> RawError v = causeText err)"
proof (cases "assertError err")
  case None
  from LogError_unlogged [OF None assms, of rid m flds] None show ?thesis
    by (simp add: NewError_def Error_Error_def RawError_def)
next
  case (Some v)
  then have "err = Some (ErrorValue v)" by (simp add: assertError_Some)
  with Some show ?thesis by (simp add: LogError_logged)
qed

text \<open>The same at a concrete error in the state after start-up.\<close>

theorem LogError_returns_Error_witness:
  "\<exists>v s'. LogError ''req'' ''save failed'' (Some (ErrorString ''disk full'')) None (started :: nat State) =
       Inr (ErrorValue v, s') \<and>
     v = NewError ''save failed'' ''disk full'' \<and> Error_Error v = ''save failed'' \<and>
     RawError v = ''disk full''"
  using LogError_returns_Error [where ?'v = nat, OF started_active, of "''req''" "''save failed''"
      "Some (ErrorString ''disk full'')" None]
  by (simp add: causeText_def)

subsection \<open>The override callbacks\<close>

text \<open>
  Claim C9. Of several callbacks only the first one counts: \<open>InitLogger\<close> with the
  callbacks \<open>cb # rest\<close> does what it does with \<open>cb\<close> alone, and the logger it stores is the
  one built from the resolved configuration as \<open>cb\<close> has changed it. With no callback the
  logger is built from the resolved configuration as it is.
\<close>

theorem InitLogger_first_callback_only:
  "InitLogger rid L F dev (cb # rest) s = InitLogger rid L F dev [cb] s \<and>
   (InitLogger rid L F dev (cb # rest) s = Inr (err, s') \<longrightarrow>
      zapLogger s' = fst (Build (cb (resolvedConfig L F dev)) 1)) \<and>
   (InitLogger rid L F dev [] s = Inr (err0, s0) \<longrightarrow>
      zapLogger s0 = fst (Build (resolvedConfig L F dev) 1))"
proof -
  have c1: "(if length (cb # rest) > 0 then ((cb # rest) ! 0) c else c) = cb c"
    and c2: "(if length [cb] > 0 then ([cb] ! 0) c else c) = cb c" for c :: Config
    by simp_all
  have "InitLogger rid L F dev (cb # rest) s = InitLogger rid L F dev [cb] s"
    unfolding InitLogger_def c1 c2 by (rule refl)
  moreover have "zapLogger s' = fst (Build (cb (resolvedConfig L F dev)) 1)"
    if "InitLogger rid L F dev (cb # rest) s = Inr (err, s')"
    using InitLogger_result [OF that] by simp
  moreover have "zapLogger s0 = fst (Build (resolvedConfig L F dev) 1)"
    if "InitLogger rid L F dev [] s = Inr (err0, s0)"
    using InitLogger_result [OF that] by simp
  ultimately show ?thesis by blast
qed

text \<open>
  The same with a first callback that sets the threshold to Debug and a second one that
  asks for an encoding the backend does not have: the build succeeds with the encoding
  \<open>json\<close> and the threshold Debug.
\<close>

theorem InitLogger_first_callback_only_witness:
  "InitLogger ''internal'' LogLevelInfo LogFormatJSON False [setLevel DebugLevel, setEncoding ''xml'']
      (started :: nat State) =
   InitLogger ''internal'' LogLevelInfo LogFormatJSON False [setLevel DebugLevel] started \<and>
   after (InitLogger ''internal'' LogLevelInfo LogFormatJSON False [setLevel DebugLevel, setEncoding ''xml'']
      (started :: nat State)) activeLogger =
     Inr (Some \<lparr>cfg = \<lparr>Level = DebugLevel, Development = False, Encoding = ''json'',
                          EncodeLevel = LowercaseLevelEncoder\<rparr>, callerSkip = 1\<rparr>) \<and>
   after (InitLogger ''internal'' LogLevelInfo LogFormatJSON False [] (started :: nat State)) activeLogger =
     Inr (Some \<lparr>cfg = \<lparr>Level = InfoLevel, Development = False, Encoding = ''json'',
                          EncodeLevel = LowercaseLevelEncoder\<rparr>, callerSkip = 1\<rparr>)"
proof -
  have b1: "fst (Build (setLevel DebugLevel (resolvedConfig LogLevelInfo LogFormatJSON False)) 1) =
      Some \<lparr>cfg = \<lparr>Level = DebugLevel, Development = False, Encoding = ''json'',
                          EncodeLevel = LowercaseLevelEncoder\<rparr>, callerSkip = 1\<rparr>"
    by (simp add: Build_def setLevel_def resolvedConfig_def const_defs NewProductionConfig_def)
  have b2: "fst (Build (resolvedConfig LogLevelInfo LogFormatJSON False) 1) =
      Some \<lparr>cfg = \<lparr>Level = InfoLevel, Development = False, Encoding = ''json'',
                          EncodeLevel = LowercaseLevelEncoder\<rparr>, callerSkip = 1\<rparr>"
    by (simp add: Build_def resolvedConfig_def const_defs NewProductionConfig_def)
  let ?X = "started\<lparr>
      zapLogger := Some \<lparr>cfg = setLevel DebugLevel (resolvedConfig LogLevelInfo LogFormatJSON False), callerSkip = 1\<rparr>,
      stdLog := Some \<lparr>cfg = setLevel DebugLevel (resolvedConfig LogLevelInfo LogFormatJSON False), callerSkip = 1\<rparr>\<rparr> :: nat State"
  let ?Y = "started\<lparr>
      zapLogger := Some \<lparr>cfg = resolvedConfig LogLevelInfo LogFormatJSON False, callerSkip = 1\<rparr>,
      stdLog := Some \<lparr>cfg = resolvedConfig LogLevelInfo LogFormatJSON False, callerSkip = 1\<rparr>\<rparr> :: nat State"
  from InitLogger_first_callback_only [of "''internal''" LogLevelInfo LogFormatJSON False "setLevel DebugLevel"
        "[setEncoding ''xml'']" "started :: nat State" None ?X None ?Y]
  have eq: "InitLogger ''internal'' LogLevelInfo LogFormatJSON False [setLevel DebugLevel, setEncoding ''xml'']
      (started :: nat State) =
     InitLogger ''internal'' LogLevelInfo LogFormatJSON False [setLevel DebugLevel] started"
    and x: "zapLogger ?X = fst (Build (setLevel DebugLevel (resolvedConfig LogLevelInfo LogFormatJSON False)) 1)"
    and y: "zapLogger ?Y = fst (Build (resolvedConfig LogLevelInfo LogFormatJSON False) 1)"
    using InitLogger_two_callbacks InitLogger_no_callback by blast+
  have "after (InitLogger ''internal'' LogLevelInfo LogFormatJSON False [setLevel DebugLevel, setEncoding ''xml'']
      (started :: nat State)) activeLogger = Inr (zapLogger ?X)"
    unfolding InitLogger_two_callbacks by (simp add: after_def activeLogger_def)
  moreover have "after (InitLogger ''internal'' LogLevelInfo LogFormatJSON False [] (started :: nat State))
      activeLogger = Inr (zapLogger ?Y)"
    unfolding InitLogger_no_callback by (simp add: after_def activeLogger_def)
  ultimately show ?thesis
    unfolding x y b1 b2 using eq by simp
qed

subsection \<open>Pointers and wrappers\<close>

text \<open>
  Claim C10. The type assertion of \<open>LogError\<close> succeeds only on an \<open>Error\<close> held by value.
  With a logger active, \<open>LogError\<close> on a pointer to an \<open>Error\<close>, and on a wrapper around any
  cause, hands a new record of severity Error to the logger and returns a new \<open>Error\<close>
  whose raw error is the text of the pointer or of the wrapper.
\<close>

theorem LogError_relogs_pointer_and_wrapper:
  assumes "zapLogger s = Some lg"
  shows "(assertError x = Some v \<longleftrightarrow> x = Some (ErrorValue v)) \<and>
     LogError rid m (Some (ErrorPointer e)) None s =
       Inr (ErrorValue (NewError m (Error_Error e)),
            s\<lparr>emitted := emitted s @
              [(lg, \<lparr>severity = ErrorLevel, Message = m,
                 Fields = [(''error'', StringType (Error_Error e)), (''requestId'', StringType rid)]\<rparr>)]\<rparr>) \<and>
     LogError rid m (Some (Wrapper text cause)) None s =
       Inr (ErrorValue (NewError m text),
            s\<lparr>emitted := emitted s @
              [(lg, \<lparr>severity = ErrorLevel, Message = m,
                 Fields = [(''error'', StringType text), (''requestId'', StringType rid)]\<rparr>)]\<rparr>)"
  using LogError_unlogged [of "Some (ErrorPointer e)" s lg rid m None]
    LogError_unlogged [of "Some (Wrapper text cause)" s lg rid m None] assms
  by (simp add: assertError_Some causeText_def)

text \<open>The same for a pointer to, and a wrapper around, an error that has been logged.\<close>

theorem LogError_relogs_pointer_and_wrapper_witness:
  "assertError (Some (ErrorPointer (NewError ''save failed'' ''disk full''))) \<noteq>
     Some (NewError ''save failed'' ''disk full'') \<and>
   LogError ''req'' ''retry failed'' (Some (ErrorPointer (NewError ''save failed'' ''disk full''))) None
       (started :: nat State) =
     Inr (ErrorValue (NewError ''retry failed'' ''save failed''),
          started\<lparr>emitted :=
            [(defaultLogger, \<lparr>severity = ErrorLevel, Message = ''retry failed'',
               Fields = [(''error'', StringType ''save failed''), (''requestId'', StringType ''req'')]\<rparr>)]\<rparr>) \<and>
   LogError ''req'' ''retry failed''
       (Some (Wrapper ''handler: save failed'' (ErrorValue (NewError ''save failed'' ''disk full'')))) None
       (started :: nat State) =
     Inr (ErrorValue (NewError ''retry failed'' ''handler: save failed''),
          started\<lparr>emitted :=
            [(defaultLogger, \<lparr>severity = ErrorLevel, Message = ''retry failed'',
               Fields = [(''error'', StringType ''handler: save failed''),
                         (''requestId'', StringType ''req'')]\<rparr>)]\<rparr>)"
  using LogError_relogs_pointer_and_wrapper [where ?'a = nat, OF started_active, of "Some (ErrorPointer (NewError ''save failed'' ''disk full''))"
      "NewError ''save failed'' ''disk full''" "''req''" "''retry failed''" "NewError ''save failed'' ''disk full''"
      "''handler: save failed''" "ErrorValue (NewError ''save failed'' ''disk full'')"]
  by (simp add: started_emitted Error_Error_def NewError_def)

end
